theory Spec2Isabelle
  imports Complex_Main "HOL-Library.Word"
begin

section \<open>Strings of the source language\<close>

text \<open>
  A TypeScript string is a sequence of 16-bit code units; \<open>s.length\<close> counts code units,
  and a regular expression without the \<open>u\<close> flag (every one in \<open>page.tsx\<close>) matches
  code unit by code unit.  String literals of the source are written \<open>js ''...''\<close>.
\<close>

type_synonym code_unit = "16 word"
type_synonym jsstring = "code_unit list"

definition js :: "string \<Rightarrow> jsstring" where
  "js s = map (\<lambda>c. of_nat (of_char c)) s"

subsection \<open>Character classes of the regular expressions\<close>

definition isUpperAZ :: "code_unit \<Rightarrow> bool" where
  "isUpperAZ c \<longleftrightarrow> 0x41 \<le> c \<and> c \<le> 0x5A"

definition isLowerAZ :: "code_unit \<Rightarrow> bool" where
  "isLowerAZ c \<longleftrightarrow> 0x61 \<le> c \<and> c \<le> 0x7A"

definition isDigit09 :: "code_unit \<Rightarrow> bool" where
  "isDigit09 c \<longleftrightarrow> 0x30 \<le> c \<and> c \<le> 0x39"

definition isHyphen :: "code_unit \<Rightarrow> bool" where
  "isHyphen c \<longleftrightarrow> c = 0x2D"

text \<open>
  \<open>[A-Z0-9\-]\<close> under the \<open>i\<close> flag.  Without the \<open>u\<close> flag a code unit is compared
  after simple upper-casing, and a code unit of value 128 or more is never folded onto an
  ASCII one, so the class holds exactly the ASCII letters of both cases, the ASCII
  digits and the hyphen.
\<close>

definition class_AZ09hyphen_i :: "code_unit \<Rightarrow> bool" where
  "class_AZ09hyphen_i c \<longleftrightarrow> isUpperAZ c \<or> isLowerAZ c \<or> isDigit09 c \<or> isHyphen c"

text \<open>\<open>[A-Z]\<close> under the \<open>i\<close> flag: the ASCII letters of both cases.\<close>

definition class_AZ_i :: "code_unit \<Rightarrow> bool" where
  "class_AZ_i c \<longleftrightarrow> isUpperAZ c \<or> isLowerAZ c"

text \<open>\<open>[0-9]\<close>: the ASCII digits.\<close>

definition class_09 :: "code_unit \<Rightarrow> bool" where
  "class_09 c \<longleftrightarrow> isDigit09 c"

text \<open>A negated class \<open>[^...]\<close> matches the code units the class does not.\<close>

definition negated :: "(code_unit \<Rightarrow> bool) \<Rightarrow> code_unit \<Rightarrow> bool" where
  "negated cls c \<longleftrightarrow> \<not> cls c"

subsection \<open>The string operations the page uses\<close>

text \<open>
  \<open>s.replace(/C/g, '')\<close> for a one-character pattern \<open>C\<close>: every code unit the
  pattern matches is removed, the others stay in order.
\<close>

definition replace_g_empty :: "(code_unit \<Rightarrow> bool) \<Rightarrow> jsstring \<Rightarrow> jsstring" where
  "replace_g_empty pat s = filter (\<lambda>c. \<not> pat c) s"

text \<open>\<open>/C/.test(s)\<close> for a one-character pattern: some code unit of \<open>s\<close> matches.\<close>

definition regex_test :: "(code_unit \<Rightarrow> bool) \<Rightarrow> jsstring \<Rightarrow> bool" where
  "regex_test pat s = list_ex pat s"

text \<open>
  \<open>s.match(/C/g)\<close> for a one-character pattern: \<open>null\<close> (here \<open>None\<close>) when nothing
  matches, otherwise the array of all matches, each a string of one code unit.
\<close>

definition match_g :: "(code_unit \<Rightarrow> bool) \<Rightarrow> jsstring \<Rightarrow> jsstring list option" where
  "match_g pat s =
     (let ms = filter pat s in if ms = [] then None else Some (map (\<lambda>c. [c]) ms))"

text \<open>\<open>m || []\<close> on the result of \<open>match\<close>: the empty array stands in for \<open>null\<close>.\<close>

definition or_empty :: "jsstring list option \<Rightarrow> jsstring list" where
  "or_empty m = (case m of None \<Rightarrow> [] | Some ms \<Rightarrow> ms)"

text \<open>
  \<open>s.toUpperCase()\<close>.  The page calls it only on the result of the \<open>replace\<close> above,
  which holds ASCII letters, ASCII digits and hyphens: there it maps \<open>a\<close>--\<open>z\<close> to
  \<open>A\<close>--\<open>Z\<close> and keeps every other code unit.  The definition says nothing faithful
  about code units outside ASCII, which it leaves as they are.
\<close>

definition toUpperCase :: "jsstring \<Rightarrow> jsstring" where
  "toUpperCase s = map (\<lambda>c. if isLowerAZ c then c - 0x20 else c) s"

section \<open>The plate validator\<close>

text \<open>
  \<open>isValidPlateNumber\<close> (page.tsx, lines 45--71), statement by statement: it strips its
  argument again (without upper-casing), checks the length, the presence of a letter
  and of a digit, and then the letter and digit counts.
\<close>

definition isValidPlateNumber :: "jsstring \<Rightarrow> bool" where
  "isValidPlateNumber text =
     (let cleaned = replace_g_empty (negated class_AZ09hyphen_i) text in
      if length cleaned < 3 \<or> length cleaned > 10 then False
      else
        let hasLetter = regex_test class_AZ_i cleaned;
            hasNumber = regex_test class_09 cleaned in
        if \<not> hasLetter \<or> \<not> hasNumber then False
        else
          let letterCount = length (or_empty (match_g class_AZ_i cleaned));
              numberCount = length (or_empty (match_g class_09 cleaned)) in
          (letterCount \<ge> 2 \<and> numberCount \<ge> 2) \<or>
          (letterCount \<ge> 3 \<and> numberCount \<ge> 1) \<or>
          (letterCount \<ge> 1 \<and> numberCount \<ge> 3))"

text \<open>
  The cleaned string of \<open>recognizeText\<close> (line 90):
  \<open>data.text.replace(/[^A-Z0-9\-]/gi, '').toUpperCase()\<close>.
\<close>

definition cleanedText :: "jsstring \<Rightarrow> jsstring" where
  "cleanedText text = toUpperCase (replace_g_empty (negated class_AZ09hyphen_i) text)"

text \<open>
  The four ways out of the gate sequence of \<open>recognizeText\<close> (lines 93--109): three
  early returns after \<open>setError\<close>, and the final \<open>setPlateText(cleaned)\<close>.
\<close>

datatype reason = LowConfidence | AmbiguousShortText | NotPlateShaped

datatype outcome = Accepted jsstring | Rejected reason

text \<open>
  Lines 90--109 of \<open>recognizeText\<close>, on the recognised text and the confidence the
  engine reports, a finite number that the engine keeps between 0 and 100; the comparisons
  are those of the source.
\<close>

definition validatePlate :: "jsstring \<Rightarrow> real \<Rightarrow> outcome" where
  "validatePlate text confidence =
     (let cleaned = cleanedText text in
      if confidence < 15 then Rejected LowConfidence
      else if confidence < 30 \<and> length cleaned < 4 then Rejected AmbiguousShortText
      else if \<not> isValidPlateNumber cleaned then Rejected NotPlateShaped
      else Accepted cleaned)"

section \<open>The page state and the capture cycle\<close>

text \<open>The messages passed to \<open>setError\<close>.\<close>

definition msgLowConfidence :: jsstring where
  "msgLowConfidence =
     js ''Low confidence in text recognition. Please ensure the number plate is clear and well-lit.''"

definition msgUnclear :: jsstring where
  "msgUnclear =
     js ''Unclear image. Please try again with better lighting or move closer to the plate.''"

definition msgNoPlate :: jsstring where
  "msgNoPlate =
     js ''No valid number plate detected. Please ensure you are pointing the camera at a clear number plate.''"

definition msgFailed :: jsstring where
  "msgFailed = js ''Failed to recognize text. Please try again.''"

text \<open>
  The canvas and the video element, as far as \<open>captureImage\<close> touches them.  A bitmap is
  a list of pixel values; assigning \<open>canvas.width\<close> or \<open>canvas.height\<close> resets the
  bitmap of a canvas.
\<close>

type_synonym bitmap = "nat list"

record canvas =
  width :: nat
  height :: nat
  pixels :: bitmap

record video =
  videoWidth :: nat
  videoHeight :: nat
  frame :: bitmap

text \<open>
  The component: its four state variables, its two refs (\<open>None\<close> is a \<open>null\<close>
  \<open>current\<close>), and the list of data URLs handed to \<open>Tesseract.recognize\<close> so far, which
  records every invocation of the engine.
\<close>

record page =
  plateText :: jsstring
  loading :: bool
  error :: jsstring
  lastCapture :: "jsstring option"
  canvasRef :: "canvas option"
  videoRef :: "video option"
  engineCalls :: "jsstring list"

text \<open>
  The collaborators outside the page: whether \<open>getContext('2d')\<close> yields a context,
  \<open>canvas.toDataURL\<close>, and the settled result of \<open>Tesseract.recognize\<close> on a data URL.
  \<open>Inl\<close> is a thrown exception or a rejected promise.
\<close>

datatype exn = Exn jsstring

record ocr_data =
  data_text :: jsstring
  data_confidence :: real

record env =
  getContext2d :: "canvas \<Rightarrow> bool"
  toDataURL :: "canvas \<Rightarrow> exn + jsstring"
  recognize :: "jsstring \<Rightarrow> exn + ocr_data"

text \<open>
  \<open>recognizeText\<close> (lines 73--116) for a run whose \<open>await\<close> settles: the three resets,
  the \<open>try\<close> block with its \<open>catch\<close>, and the \<open>finally\<close>.  Writes to the console are
  not part of the state.
\<close>

definition recognizeText :: "env \<Rightarrow> canvas \<Rightarrow> page \<Rightarrow> page" where
  "recognizeText e cv p0 =
     (let p1 = p0\<lparr>loading := True\<rparr>;
          p2 = p1\<lparr>error := []\<rparr>;
          p3 = p2\<lparr>plateText := []\<rparr>;
          p4 =
            (case toDataURL e cv of
               Inl err \<Rightarrow> p3\<lparr>error := msgFailed\<rparr>
             | Inr dataUrl \<Rightarrow>
                 (let q1 = p3\<lparr>lastCapture := Some dataUrl\<rparr>;
                      q2 = q1\<lparr>engineCalls := engineCalls q1 @ [dataUrl]\<rparr> in
                  case recognize e dataUrl of
                    Inl err \<Rightarrow> q2\<lparr>error := msgFailed\<rparr>
                  | Inr d \<Rightarrow>
                      (case validatePlate (data_text d) (data_confidence d) of
                         Rejected LowConfidence \<Rightarrow> q2\<lparr>error := msgLowConfidence\<rparr>
                       | Rejected AmbiguousShortText \<Rightarrow> q2\<lparr>error := msgUnclear\<rparr>
                       | Rejected NotPlateShaped \<Rightarrow> q2\<lparr>error := msgNoPlate\<rparr>
                       | Accepted cleaned \<Rightarrow> q2\<lparr>plateText := cleaned\<rparr>)))
      in p4\<lparr>loading := False\<rparr>)"

text \<open>
  \<open>captureImage\<close> (lines 29--42): nothing happens unless both refs are set; then the
  canvas takes the size of the video, and, when a 2d context is available, the current
  frame is drawn and \<open>recognizeText\<close> runs on the canvas.
\<close>

definition captureImage :: "env \<Rightarrow> page \<Rightarrow> page" where
  "captureImage e p =
     (case (canvasRef p, videoRef p) of
        (Some cv, Some v) \<Rightarrow>
          (let c1 = cv\<lparr>width := videoWidth v, pixels := []\<rparr>;
               c2 = c1\<lparr>height := videoHeight v, pixels := []\<rparr>;
               p1 = p\<lparr>canvasRef := Some c2\<rparr> in
           if getContext2d e c2 then
             (let c3 = c2\<lparr>pixels := frame v\<rparr>;
                  p2 = p1\<lparr>canvasRef := Some c3\<rparr> in
              recognizeText e c3 p2)
           else p1)
      | _ \<Rightarrow> p)"

section \<open>The validator with its exceptions\<close>

text \<open>
  The definitions above take every operation of the validator as a function that
  returns.  In the source language one of them can throw: \<open>match\<close> gives \<open>null\<close> when
  nothing matches, and reading \<open>.length\<close> of \<open>null\<close> throws a \<open>TypeError\<close>.  The
  definitions of this section write that out: a value that may be \<open>null\<close> is an
  \<open>option\<close>, a computation that may throw returns \<open>exn + 'a\<close>, and an exception of the
  validator reaches the \<open>catch\<close> handler of \<open>recognizeText\<close>.  The other operations
  (\<open>replace\<close>, \<open>toUpperCase\<close> and \<open>length\<close> of a string, \<open>test\<close>, the comparisons of
  numbers) return on every string and every number.
\<close>

definition typeError :: exn where
  "typeError = Exn (js ''TypeError: Cannot read properties of null'')"

text \<open>
  \<open>a || b\<close> on values that are \<open>null\<close> or an array: \<open>null\<close> is falsy and gives \<open>b\<close>; an
  array, empty or not, is truthy and gives itself.
\<close>

definition js_or :: "jsstring list option \<Rightarrow> jsstring list option \<Rightarrow> jsstring list option" where
  "js_or a b = (case a of None \<Rightarrow> b | Some ms \<Rightarrow> Some ms)"

text \<open>\<open>a.length\<close> on a value that is \<open>null\<close> or an array.\<close>

definition array_length :: "jsstring list option \<Rightarrow> exn + nat" where
  "array_length a = (case a of None \<Rightarrow> Inl typeError | Some ms \<Rightarrow> Inr (length ms))"

text \<open>
  \<open>isValidPlateNumber\<close> (lines 45--71) again, with \<open>(cleaned.match(...) || []).length\<close>
  as a guarded read that could throw.
\<close>

definition isValidPlateNumber_exn :: "jsstring \<Rightarrow> exn + bool" where
  "isValidPlateNumber_exn text =
     (let cleaned = replace_g_empty (negated class_AZ09hyphen_i) text in
      if length cleaned < 3 \<or> length cleaned > 10 then Inr False
      else
        let hasLetter = regex_test class_AZ_i cleaned;
            hasNumber = regex_test class_09 cleaned in
        if \<not> hasLetter \<or> \<not> hasNumber then Inr False
        else
          case array_length (js_or (match_g class_AZ_i cleaned) (Some [])) of
            Inl err \<Rightarrow> Inl err
          | Inr letterCount \<Rightarrow>
              (case array_length (js_or (match_g class_09 cleaned) (Some [])) of
                 Inl err \<Rightarrow> Inl err
               | Inr numberCount \<Rightarrow>
                   Inr ((letterCount \<ge> 2 \<and> numberCount \<ge> 2) \<or>
                        (letterCount \<ge> 3 \<and> numberCount \<ge> 1) \<or>
                        (letterCount \<ge> 1 \<and> numberCount \<ge> 3))))"

text \<open>Lines 90--109 again: an exception of \<open>isValidPlateNumber\<close> leaves the gate sequence.\<close>

definition validatePlate_exn :: "jsstring \<Rightarrow> real \<Rightarrow> exn + outcome" where
  "validatePlate_exn text confidence =
     (let cleaned = cleanedText text in
      if confidence < 15 then Inr (Rejected LowConfidence)
      else if confidence < 30 \<and> length cleaned < 4 then Inr (Rejected AmbiguousShortText)
      else
        case isValidPlateNumber_exn cleaned of
          Inl err \<Rightarrow> Inl err
        | Inr valid \<Rightarrow>
            if \<not> valid then Inr (Rejected NotPlateShaped)
            else Inr (Accepted cleaned))"

text \<open>
  \<open>recognizeText\<close> (lines 73--116) again: an exception of the gate sequence is caught
  like one of \<open>toDataURL\<close> or of the engine.
\<close>

definition recognizeText_exn :: "env \<Rightarrow> canvas \<Rightarrow> page \<Rightarrow> page" where
  "recognizeText_exn e cv p0 =
     (let p1 = p0\<lparr>loading := True\<rparr>;
          p2 = p1\<lparr>error := []\<rparr>;
          p3 = p2\<lparr>plateText := []\<rparr>;
          p4 =
            (case toDataURL e cv of
               Inl err \<Rightarrow> p3\<lparr>error := msgFailed\<rparr>
             | Inr dataUrl \<Rightarrow>
                 (let q1 = p3\<lparr>lastCapture := Some dataUrl\<rparr>;
                      q2 = q1\<lparr>engineCalls := engineCalls q1 @ [dataUrl]\<rparr> in
                  case recognize e dataUrl of
                    Inl err \<Rightarrow> q2\<lparr>error := msgFailed\<rparr>
                  | Inr d \<Rightarrow>
                      (case validatePlate_exn (data_text d) (data_confidence d) of
                         Inl err \<Rightarrow> q2\<lparr>error := msgFailed\<rparr>
                       | Inr (Rejected LowConfidence) \<Rightarrow> q2\<lparr>error := msgLowConfidence\<rparr>
                       | Inr (Rejected AmbiguousShortText) \<Rightarrow> q2\<lparr>error := msgUnclear\<rparr>
                       | Inr (Rejected NotPlateShaped) \<Rightarrow> q2\<lparr>error := msgNoPlate\<rparr>
                       | Inr (Accepted cleaned) \<Rightarrow> q2\<lparr>plateText := cleaned\<rparr>)))
      in p4\<lparr>loading := False\<rparr>)"

section \<open>Vocabulary of the properties\<close>

text \<open>
  The characters an accepted plate may hold, \<open>[A-Z0-9-]\<close>; the ASCII letters; and the
  numbers of letters, digits and hyphens of a string.
\<close>

definition plateChar :: "code_unit \<Rightarrow> bool" where
  "plateChar c \<longleftrightarrow> isUpperAZ c \<or> isDigit09 c \<or> isHyphen c"

definition isLetter :: "code_unit \<Rightarrow> bool" where
  "isLetter c \<longleftrightarrow> isUpperAZ c \<or> isLowerAZ c"

definition letters :: "jsstring \<Rightarrow> nat" where
  "letters s = length (filter isLetter s)"

definition digits :: "jsstring \<Rightarrow> nat" where
  "digits s = length (filter isDigit09 s)"

definition hyphens :: "jsstring \<Rightarrow> nat" where
  "hyphens s = length (filter isHyphen s)"

definition plateShaped :: "jsstring \<Rightarrow> bool" where
  "plateShaped s \<longleftrightarrow>
     3 \<le> length s \<and> length s \<le> 10 \<and>
     (\<exists>c \<in> set s. isLetter c) \<and> (\<exists>c \<in> set s. isDigit09 c) \<and>
     ((letters s \<ge> 2 \<and> digits s \<ge> 2) \<or> (letters s \<ge> 3 \<and> digits s \<ge> 1) \<or>
      (letters s \<ge> 1 \<and> digits s \<ge> 3))"

text \<open>
  A sample run: a canvas, an engine that reads \<open>ab-12\<close> at confidence 80 from whatever
  it is given, and a page whose canvas ref is still \<open>null\<close> and whose fields hold text
  from before.
\<close>

definition demo_env :: env where
  "demo_env = \<lparr>getContext2d = (\<lambda>cv. True), toDataURL = (\<lambda>cv. Inr (js ''data:,'')),
         recognize = (\<lambda>u. Inr \<lparr>data_text = js ''ab-12'', data_confidence = 80\<rparr>)\<rparr>"

definition demo_canvas :: canvas where
  "demo_canvas = \<lparr>width = 0, height = 0, pixels = []\<rparr>"

definition demo_page :: page where
  "demo_page = \<lparr>plateText = js ''OLD1'', loading = False, error = js ''old'', lastCapture = None,
         canvasRef = None, videoRef = Some \<lparr>videoWidth = 640, videoHeight = 480, frame = []\<rparr>,
         engineCalls = []\<rparr>"

section \<open>Facts about the character classes and the cleaned string\<close>

lemmas eval_defs = js_def toUpperCase_def replace_g_empty_def negated_def class_AZ09hyphen_i_def
  class_AZ_i_def class_09_def isUpperAZ_def isLowerAZ_def isDigit09_def isHyphen_def
  regex_test_def match_g_def or_empty_def cleanedText_def isValidPlateNumber_def
  validatePlate_def isLetter_def letters_def digits_def hyphens_def

lemma lower_to_upper: "isLowerAZ c \<Longrightarrow> isUpperAZ (c - 0x20)"
  unfolding isLowerAZ_def isUpperAZ_def by unat_arith

lemma upper_not_lower: "isUpperAZ c \<Longrightarrow> \<not> isLowerAZ c"
  unfolding isLowerAZ_def isUpperAZ_def by unat_arith

lemma digit_not_other: "isDigit09 c \<Longrightarrow> \<not> isLowerAZ c \<and> \<not> isUpperAZ c \<and> \<not> isHyphen c"
  unfolding isLowerAZ_def isUpperAZ_def isDigit09_def isHyphen_def by unat_arith

lemma hyphen_not_other: "isHyphen c \<Longrightarrow> \<not> isLowerAZ c \<and> \<not> isUpperAZ c \<and> \<not> isDigit09 c"
  unfolding isLowerAZ_def isUpperAZ_def isDigit09_def isHyphen_def by simp

lemma plateChar_not_lower: "plateChar c \<Longrightarrow> \<not> isLowerAZ c"
  unfolding plateChar_def using upper_not_lower digit_not_other hyphen_not_other by blast

lemma plateChar_in_class: "plateChar c \<Longrightarrow> class_AZ09hyphen_i c"
  by (auto simp: plateChar_def class_AZ09hyphen_i_def)

lemma replace_negated: "replace_g_empty (negated cls) s = filter cls s"
  by (simp add: replace_g_empty_def negated_def)

lemma length_matches: "length (or_empty (match_g pat s)) = length (filter pat s)"
  by (simp add: match_g_def or_empty_def Let_def)

lemma cleanedText_eq:
  "cleanedText t = map (\<lambda>c. if isLowerAZ c then c - 0x20 else c) (filter class_AZ09hyphen_i t)"
  by (simp add: cleanedText_def toUpperCase_def replace_negated)

lemma cleanedText_plateChar: "c \<in> set (cleanedText t) \<Longrightarrow> plateChar c"
  unfolding cleanedText_eq
  by (auto simp: plateChar_def class_AZ09hyphen_i_def lower_to_upper)

lemma toUpperCase_fixed: "\<forall>c \<in> set s. plateChar c \<Longrightarrow> toUpperCase s = s"
  unfolding toUpperCase_def by (rule map_idI) (simp add: plateChar_not_lower)

lemma strip_fixed: "\<forall>c \<in> set s. plateChar c \<Longrightarrow> replace_g_empty (negated class_AZ09hyphen_i) s = s"
  unfolding replace_negated by (simp add: plateChar_in_class)

lemma cleanedText_fixed: "\<forall>c \<in> set s. plateChar c \<Longrightarrow> cleanedText s = s"
  by (simp add: cleanedText_def strip_fixed toUpperCase_fixed)

lemma isValidPlateNumber_shape:
  assumes "\<forall>c \<in> set s. plateChar c"
  shows "isValidPlateNumber s \<longleftrightarrow> plateShaped s"
proof -
  have cl: "class_AZ_i = isLetter" "class_09 = isDigit09"
    by (auto simp: fun_eq_iff class_AZ_i_def isLetter_def class_09_def)
  show ?thesis
    unfolding isValidPlateNumber_def strip_fixed [OF assms] Let_def length_matches regex_test_def
      cl plateShaped_def letters_def digits_def list_ex_iff
    by auto
qed

lemma validatePlate_cases:
  "validatePlate t c =
     (if c < 15 then Rejected LowConfidence
      else if c < 30 \<and> length (cleanedText t) < 4 then Rejected AmbiguousShortText
      else if plateShaped (cleanedText t) then Accepted (cleanedText t)
      else Rejected NotPlateShaped)"
  unfolding validatePlate_def Let_def
  by (simp add: isValidPlateNumber_shape cleanedText_plateChar)


lemma ex_letter_iff: "(\<exists>c \<in> set s. isLetter c) \<longleftrightarrow> 1 \<le> letters s"
  by (simp add: letters_def Suc_le_eq length_greater_0_conv filter_empty_conv)

lemma ex_digit_iff: "(\<exists>c \<in> set s. isDigit09 c) \<longleftrightarrow> 1 \<le> digits s"
  by (simp add: digits_def Suc_le_eq length_greater_0_conv filter_empty_conv)

lemma length_partition:
  "\<forall>c \<in> set s. plateChar c \<Longrightarrow> length s = letters s + digits s + hyphens s"
proof (induction s)
  case Nil
  then show ?case by (simp add: letters_def digits_def hyphens_def)
next
  case (Cons a s)
  then have a: "plateChar a" and IH: "length s = letters s + digits s + hyphens s"
    by simp_all
  from a consider "isUpperAZ a" | "isDigit09 a" | "isHyphen a"
    unfolding plateChar_def by blast
  then show ?case
  proof cases
    case 1
    then have "isLetter a" "\<not> isDigit09 a" "\<not> isHyphen a"
      using digit_not_other hyphen_not_other by (auto simp: isLetter_def)
    with IH show ?thesis by (simp add: letters_def digits_def hyphens_def)
  next
    case 2
    then have "\<not> isLetter a" "isDigit09 a" "\<not> isHyphen a"
      using digit_not_other by (auto simp: isLetter_def)
    with IH show ?thesis by (simp add: letters_def digits_def hyphens_def)
  next
    case 3
    then have "\<not> isLetter a" "\<not> isDigit09 a" "isHyphen a"
      using hyphen_not_other by (auto simp: isLetter_def)
    with IH show ?thesis by (simp add: letters_def digits_def hyphens_def)
  qed
qed

lemma hyphens_cleanedText: "hyphens (cleanedText t) = hyphens t"
proof -
  have up: "isHyphen (if isLowerAZ c then c - 0x20 else c) \<longleftrightarrow> isHyphen c" for c
    using hyphen_not_other [of c] hyphen_not_other [of "c - 0x20"] lower_to_upper [of c]
    by auto
  have keep: "(class_AZ09hyphen_i c \<and> isHyphen c) \<longleftrightarrow> isHyphen c" for c
    by (auto simp: class_AZ09hyphen_i_def)
  show ?thesis
    unfolding hyphens_def cleanedText_eq
    by (simp add: filter_map o_def up keep conj_commute)
qed

lemma messages_nonempty:
  "msgLowConfidence \<noteq> []" "msgUnclear \<noteq> []" "msgNoPlate \<noteq> []" "msgFailed \<noteq> []"
  by (simp_all add: msgLowConfidence_def msgUnclear_def msgNoPlate_def msgFailed_def js_def)

lemma messages_not_failed:
  "msgLowConfidence \<noteq> msgFailed" "msgUnclear \<noteq> msgFailed" "msgNoPlate \<noteq> msgFailed"
  by (simp_all add: msgLowConfidence_def msgUnclear_def msgNoPlate_def msgFailed_def js_def)

lemma accepted_length: "validatePlate t c = Accepted x \<Longrightarrow> x = cleanedText t \<and> 3 \<le> length x"
  unfolding validatePlate_cases plateShaped_def by (auto split: if_splits)

lemma recognizeText_fields:
  "plateText (recognizeText e cv p) =
     (case toDataURL e cv of Inl err \<Rightarrow> []
      | Inr u \<Rightarrow> (case recognize e u of Inl err \<Rightarrow> []
         | Inr d \<Rightarrow> (case validatePlate (data_text d) (data_confidence d) of
              Accepted x \<Rightarrow> x | Rejected r \<Rightarrow> [])))"
  "error (recognizeText e cv p) =
     (case toDataURL e cv of Inl err \<Rightarrow> msgFailed
      | Inr u \<Rightarrow> (case recognize e u of Inl err \<Rightarrow> msgFailed
         | Inr d \<Rightarrow> (case validatePlate (data_text d) (data_confidence d) of
              Accepted x \<Rightarrow> []
            | Rejected r \<Rightarrow> (case r of LowConfidence \<Rightarrow> msgLowConfidence
                 | AmbiguousShortText \<Rightarrow> msgUnclear | NotPlateShaped \<Rightarrow> msgNoPlate))))"
  "loading (recognizeText e cv p) = False"
  by (simp_all add: recognizeText_def Let_def split: sum.splits outcome.splits reason.splits)

text \<open>
  The exception is live in the model: without the \<open>|| []\<close> the length of a failed
  match cannot be read.  With it the read returns, and so do the validator and the gate
  sequence, with the values of the definitions that leave the exception out.
\<close>

lemma unguarded_length_throws:
  "array_length (match_g class_09 (js ''ABC'')) = Inl typeError"
  by (simp add: array_length_def match_g_def class_09_def isDigit09_def js_def)

lemma guarded_length: "array_length (js_or m (Some [])) = Inr (length (or_empty m))"
  by (cases m) (simp_all add: array_length_def js_or_def or_empty_def)

lemma isValidPlateNumber_exn_returns:
  "isValidPlateNumber_exn s = Inr (isValidPlateNumber s)"
  by (simp add: isValidPlateNumber_exn_def isValidPlateNumber_def guarded_length Let_def)

lemma validatePlate_exn_returns:
  "validatePlate_exn t c = Inr (validatePlate t c)"
  by (simp add: validatePlate_exn_def validatePlate_def isValidPlateNumber_exn_returns Let_def)

lemma recognizeText_exn_eq: "recognizeText_exn e cv p = recognizeText e cv p"
  by (simp add: recognizeText_exn_def recognizeText_def validatePlate_exn_returns Let_def
      split: sum.splits outcome.splits reason.splits)

section \<open>The validator\<close>

text \<open>
  Claim C1.  For every text and every confidence that passes both confidence gates
  (confidence at least 15, and not both confidence below 30 and cleaned length below 4),
  the outcome is \<open>Accepted\<close> of the cleaned string exactly when the cleaned string has
  length 3 to 10, holds a letter and a digit, and has at least 2 letters and 2 digits, or
  3 letters and 1 digit, or 1 letter and 3 digits; otherwise it is \<open>NotPlateShaped\<close>.
\<close>

theorem shape_gate_decides:
  assumes "15 \<le> confidence"
    and "\<not> (confidence < 30 \<and> length (cleanedText text) < 4)"
  shows "validatePlate text confidence =
     (if 3 \<le> length (cleanedText text) \<and> length (cleanedText text) \<le> 10 \<and>
         (\<exists>c \<in> set (cleanedText text). isLetter c) \<and>
         (\<exists>c \<in> set (cleanedText text). isDigit09 c) \<and>
         ((letters (cleanedText text) \<ge> 2 \<and> digits (cleanedText text) \<ge> 2) \<or>
          (letters (cleanedText text) \<ge> 3 \<and> digits (cleanedText text) \<ge> 1) \<or>
          (letters (cleanedText text) \<ge> 1 \<and> digits (cleanedText text) \<ge> 3))
      then Accepted (cleanedText text)
      else Rejected NotPlateShaped)"
  using assms unfolding validatePlate_cases plateShaped_def by auto

theorem shape_gate_decides_witness:
  "(15::real) \<le> 50 \<and> \<not> ((50::real) < 30 \<and> length (cleanedText (js ''ka01 ab1234'')) < 4) \<and>
   validatePlate (js ''ka01 ab1234'') 50 = Accepted (js ''KA01AB1234'') \<and>
   validatePlate (js ''abc'') 50 = Rejected NotPlateShaped"
proof -
  have h1: "(15::real) \<le> 50" by simp
  have h2: "\<not> ((50::real) < 30 \<and> length (cleanedText (js ''ka01 ab1234'')) < 4)" by simp
  have h3: "\<not> ((50::real) < 30 \<and> length (cleanedText (js ''abc'')) < 4)" by simp
  have c1: "cleanedText (js ''ka01 ab1234'') = js ''KA01AB1234''"
    by (simp add: eval_defs)
  have c2: "cleanedText (js ''abc'') = js ''ABC''"
    by (simp add: eval_defs)
  have a: "validatePlate (js ''ka01 ab1234'') 50 = Accepted (js ''KA01AB1234'')"
    unfolding shape_gate_decides [OF h1 h2] c1 by (simp add: eval_defs)
  have b: "validatePlate (js ''abc'') 50 = Rejected NotPlateShaped"
    unfolding shape_gate_decides [OF h1 h3] c2 by (simp add: eval_defs)
  from h1 h2 a b show ?thesis by blast
qed

text \<open>
  Claim C2.  For every text and every confidence strictly below 15 the outcome is
  \<open>LowConfidence\<close>, whatever the text.
\<close>

theorem low_confidence_rejected:
  "confidence < 15 \<Longrightarrow> validatePlate text confidence = Rejected LowConfidence"
  by (simp add: validatePlate_def)

theorem low_confidence_rejected_witness:
  "(10::real) < 15 \<and> validatePlate (js ''KA01AB1234'') 10 = Rejected LowConfidence"
proof -
  have h: "(10::real) < 15" by simp
  from h low_confidence_rejected [OF h] show ?thesis by blast
qed

text \<open>
  Claim C3.  For every text and every confidence from 15 up to, but not including, 30,
  a cleaned string shorter than 4 gives \<open>AmbiguousShortText\<close>: the gate comes after the
  low-confidence gate and before the shape gate, whose verdict is not consulted.
\<close>

theorem ambiguous_short_text_rejected:
  "15 \<le> confidence \<Longrightarrow> confidence < 30 \<Longrightarrow> length (cleanedText text) < 4 \<Longrightarrow>
   validatePlate text confidence = Rejected AmbiguousShortText"
  by (simp add: validatePlate_def)

theorem ambiguous_short_text_rejected_witness:
  "(15::real) \<le> 25 \<and> (25::real) < 30 \<and> length (cleanedText (js ''Z9'')) < 4 \<and>
   validatePlate (js ''Z9'') 25 = Rejected AmbiguousShortText"
proof -
  have h1: "(15::real) \<le> 25" and h2: "(25::real) < 30" by simp_all
  have h3: "length (cleanedText (js ''Z9'')) < 4" by (simp add: eval_defs)
  from h1 h2 h3 ambiguous_short_text_rejected [OF h1 h2 h3] show ?thesis by blast
qed

text \<open>
  Claim C4, as amended.  For the text \<open>AB-1234\<close> followed by a space, at confidence 80,
  the outcome is \<open>Accepted\<close> of \<open>AB-1234\<close>: the space is stripped and the hyphen, which
  the pattern of line 90 keeps, stays in the accepted string.
\<close>

theorem hyphenated_example_accepted:
  "validatePlate (js ''AB-1234 '') 80 = Accepted (js ''AB-1234'')"
  by (simp add: eval_defs)

theorem hyphenated_example_accepted_witness:
  "validatePlate (js ''AB-1234 '') 80 = Accepted (js ''AB-1234'') \<and>
   hyphens (js ''AB-1234'') = 1"
proof -
  have "hyphens (js ''AB-1234'') = 1" by (simp add: eval_defs)
  with hyphenated_example_accepted show ?thesis by blast
qed

text \<open>
  The claim as first stated, with \<open>AB1234\<close> as the accepted string, does not hold.
\<close>

theorem hyphenated_example_not_stripped:
  "validatePlate (js ''AB-1234 '') 80 \<noteq> Accepted (js ''AB1234'')"
  by (simp add: eval_defs)

text \<open>
  Claim C5.  Whenever the outcome is \<open>Accepted x\<close>, the string \<open>x\<close> holds only
  characters of \<open>[A-Z0-9-]\<close>, has length 3 to 10, and holds at least one letter and at
  least one digit.
\<close>

theorem accepted_is_plate_shaped:
  assumes "validatePlate text confidence = Accepted x"
  shows "(\<forall>c \<in> set x. isUpperAZ c \<or> isDigit09 c \<or> isHyphen c) \<and>
         3 \<le> length x \<and> length x \<le> 10 \<and>
         (\<exists>c \<in> set x. isUpperAZ c) \<and> (\<exists>c \<in> set x. isDigit09 c)"
proof -
  from assms have x: "x = cleanedText text" and sh: "plateShaped x"
    unfolding validatePlate_cases by (auto split: if_splits)
  from x have pc: "\<forall>c \<in> set x. plateChar c"
    by (simp add: cleanedText_plateChar)
  from sh obtain l where "l \<in> set x" "isLetter l"
    unfolding plateShaped_def by blast
  with pc have "\<exists>c \<in> set x. isUpperAZ c"
    using plateChar_not_lower unfolding isLetter_def by blast
  with pc sh show ?thesis
    unfolding plateShaped_def plateChar_def by blast
qed

theorem accepted_is_plate_shaped_witness:
  "validatePlate (js ''ab-12'') 80 = Accepted (js ''AB-12'') \<and>
   list_all (\<lambda>c. isUpperAZ c \<or> isDigit09 c \<or> isHyphen c) (js ''AB-12'') \<and>
   3 \<le> length (js ''AB-12'') \<and> length (js ''AB-12'') \<le> 10 \<and>
   (\<exists>c \<in> set (js ''AB-12''). isUpperAZ c) \<and> (\<exists>c \<in> set (js ''AB-12''). isDigit09 c)"
proof -
  have h: "validatePlate (js ''ab-12'') 80 = Accepted (js ''AB-12'')"
    by (simp add: eval_defs)
  from h accepted_is_plate_shaped [OF h] show ?thesis
    unfolding list_all_iff by blast
qed

text \<open>
  Claim C6.  Normalisation (strip every character outside \<open>[A-Za-z0-9-]\<close>, then
  upper-case) is idempotent, and so is the stripping alone, which \<open>isValidPlateNumber\<close>
  repeats; in particular a string of characters of \<open>[A-Z0-9-]\<close> is returned unchanged.
\<close>

theorem cleanedText_idempotent:
  "cleanedText (cleanedText s) = cleanedText s \<and>
   replace_g_empty (negated class_AZ09hyphen_i) (replace_g_empty (negated class_AZ09hyphen_i) s)
     = replace_g_empty (negated class_AZ09hyphen_i) s \<and>
   ((\<forall>c \<in> set s. isUpperAZ c \<or> isDigit09 c \<or> isHyphen c) \<longrightarrow> cleanedText s = s)"
proof -
  have "cleanedText (cleanedText s) = cleanedText s"
    by (rule cleanedText_fixed) (simp add: cleanedText_plateChar)
  moreover have "(\<forall>c \<in> set s. isUpperAZ c \<or> isDigit09 c \<or> isHyphen c) \<longrightarrow> cleanedText s = s"
    using cleanedText_fixed [of s] by (simp add: plateChar_def)
  ultimately show ?thesis by (simp add: replace_negated)
qed

theorem cleanedText_idempotent_witness:
  "cleanedText (cleanedText (js ''ab-12 cd!'')) = cleanedText (js ''ab-12 cd!'') \<and>
   cleanedText (js ''ab-12 cd!'') = js ''AB-12CD'' \<and>
   list_all (\<lambda>c. isUpperAZ c \<or> isDigit09 c \<or> isHyphen c) (js ''AB-12CD'') \<and>
   cleanedText (js ''AB-12CD'') = js ''AB-12CD''"
proof -
  have h: "\<forall>c \<in> set (js ''AB-12CD''). isUpperAZ c \<or> isDigit09 c \<or> isHyphen c"
    by (simp add: eval_defs)
  have v: "cleanedText (js ''ab-12 cd!'') = js ''AB-12CD''"
    by (simp add: eval_defs)
  from h v cleanedText_idempotent [of "js ''ab-12 cd!''"] cleanedText_idempotent [of "js ''AB-12CD''"]
  show ?thesis unfolding list_all_iff by blast
qed

text \<open>
  Claim C7.  The validator is total: for every text and every confidence between 0 and
  100 the gate sequence, with its exceptions written out, returns and does not throw;
  what it returns is the outcome \<open>validatePlate\<close> computes, which is \<open>Accepted\<close> of the
  cleaned string or one of the three rejections; and when the engine has delivered its
  data, the run of \<open>recognizeText\<close> does not end in the message of the \<open>catch\<close> handler.
  The bounds on the confidence are not needed.
\<close>

theorem validatePlate_total:
  assumes "0 \<le> confidence" and "confidence \<le> 100"
  shows "validatePlate_exn text confidence = Inr (validatePlate text confidence) \<and>
         validatePlate text confidence \<in>
           {Accepted (cleanedText text), Rejected LowConfidence,
            Rejected AmbiguousShortText, Rejected NotPlateShaped} \<and>
         (toDataURL e cv = Inr u \<and>
          recognize e u = Inr \<lparr>data_text = text, data_confidence = confidence\<rparr> \<longrightarrow>
            error (recognizeText_exn e cv p) \<noteq> msgFailed)"
proof -
  have 1: "validatePlate text confidence \<in>
           {Accepted (cleanedText text), Rejected LowConfidence,
            Rejected AmbiguousShortText, Rejected NotPlateShaped}"
    unfolding validatePlate_cases by simp
  have 2: "error (recognizeText_exn e cv p) \<noteq> msgFailed"
    if "toDataURL e cv = Inr u"
      and "recognize e u = Inr \<lparr>data_text = text, data_confidence = confidence\<rparr>"
    unfolding recognizeText_exn_eq
    using that messages_not_failed messages_nonempty(4)
    by (auto simp: recognizeText_fields split: outcome.splits reason.splits)
  from 1 2 validatePlate_exn_returns show ?thesis by blast
qed

theorem validatePlate_total_witness:
  "(0::real) \<le> 80 \<and> (80::real) \<le> 100 \<and>
   toDataURL demo_env demo_canvas = Inr (js ''data:,'') \<and>
   recognize demo_env (js ''data:,'') = Inr \<lparr>data_text = js ''ab-12'', data_confidence = 80\<rparr> \<and>
   validatePlate_exn (js ''ab-12'') 80 = Inr (Accepted (js ''AB-12'')) \<and>
   validatePlate_exn (js ''abc'') 80 = Inr (Rejected NotPlateShaped) \<and>
   error (recognizeText_exn demo_env demo_canvas demo_page) \<noteq> msgFailed"
proof -
  have h1: "(0::real) \<le> 80" and h2: "(80::real) \<le> 100" by simp_all
  have h3: "toDataURL demo_env demo_canvas = Inr (js ''data:,'')"
    and h4: "recognize demo_env (js ''data:,'') = Inr \<lparr>data_text = js ''ab-12'', data_confidence = 80\<rparr>"
    by (simp_all add: demo_env_def)
  have v1: "validatePlate (js ''ab-12'') 80 = Accepted (js ''AB-12'')"
    and v2: "validatePlate (js ''abc'') 80 = Rejected NotPlateShaped"
    by (simp_all add: eval_defs)
  from h1 h2 h3 h4 v1 v2
    validatePlate_total [OF h1 h2, of "js ''ab-12''" demo_env demo_canvas "js ''data:,''" demo_page]
    validatePlate_total [OF h1 h2, of "js ''abc''" demo_env demo_canvas "js ''data:,''" demo_page]
  show ?thesis by simp
qed

text \<open>
  Claim C9.  Hyphens of the cleaned string count towards its length, and so towards the
  short-text gate and the 3-to-10 bound, but towards neither the letter count nor the
  digit count: the length is the sum of the three counts, the gates read the length and
  the two counts, and cleaning keeps every hyphen of the text.  For every confidence of 30
  or more, \<open>AB-12\<close> is accepted as \<open>AB-12\<close>, hyphen included.
\<close>

theorem hyphens_count_towards_length_only:
  "length (cleanedText text) =
     letters (cleanedText text) + digits (cleanedText text) + hyphens (cleanedText text) \<and>
   hyphens (cleanedText text) = hyphens text \<and>
   validatePlate text confidence =
     (let l = letters (cleanedText text); d = digits (cleanedText text);
          h = hyphens (cleanedText text) in
      if confidence < 15 then Rejected LowConfidence
      else if confidence < 30 \<and> l + d + h < 4 then Rejected AmbiguousShortText
      else if 3 \<le> l + d + h \<and> l + d + h \<le> 10 \<and> 1 \<le> l \<and> 1 \<le> d \<and>
              ((l \<ge> 2 \<and> d \<ge> 2) \<or> (l \<ge> 3 \<and> d \<ge> 1) \<or> (l \<ge> 1 \<and> d \<ge> 3))
      then Accepted (cleanedText text)
      else Rejected NotPlateShaped) \<and>
   (\<forall>c \<ge> 30. validatePlate (js ''AB-12'') c = Accepted (js ''AB-12''))"
proof -
  have len: "length (cleanedText text) =
     letters (cleanedText text) + digits (cleanedText text) + hyphens (cleanedText text)"
    by (rule length_partition) (simp add: cleanedText_plateChar)
  have gates: "validatePlate text confidence =
     (let l = letters (cleanedText text); d = digits (cleanedText text);
          h = hyphens (cleanedText text) in
      if confidence < 15 then Rejected LowConfidence
      else if confidence < 30 \<and> l + d + h < 4 then Rejected AmbiguousShortText
      else if 3 \<le> l + d + h \<and> l + d + h \<le> 10 \<and> 1 \<le> l \<and> 1 \<le> d \<and>
              ((l \<ge> 2 \<and> d \<ge> 2) \<or> (l \<ge> 3 \<and> d \<ge> 1) \<or> (l \<ge> 1 \<and> d \<ge> 3))
      then Accepted (cleanedText text)
      else Rejected NotPlateShaped)"
    unfolding validatePlate_cases plateShaped_def ex_letter_iff ex_digit_iff Let_def
      len [symmetric]
    by simp
  have ex: "validatePlate (js ''AB-12'') c = Accepted (js ''AB-12'')" if "30 \<le> c" for c
  proof -
    have "cleanedText (js ''AB-12'') = js ''AB-12''"
      by (simp add: eval_defs)
    moreover have "isValidPlateNumber (js ''AB-12'')"
      by (simp add: eval_defs)
    ultimately show ?thesis
      using that by (simp add: validatePlate_def)
  qed
  from len gates ex hyphens_cleanedText show ?thesis by blast
qed

theorem hyphens_count_towards_length_only_witness:
  "(30::real) \<le> 30 \<and> validatePlate (js ''AB-12'') 30 = Accepted (js ''AB-12'') \<and>
   length (cleanedText (js ''AB-12'')) = 5 \<and> letters (cleanedText (js ''AB-12'')) = 2 \<and>
   digits (cleanedText (js ''AB-12'')) = 2 \<and> hyphens (cleanedText (js ''AB-12'')) = 1"
proof -
  have h: "(30::real) \<le> 30" by simp
  have c: "cleanedText (js ''AB-12'') = js ''AB-12''" by (simp add: eval_defs)
  have n: "letters (js ''AB-12'') = 2" "digits (js ''AB-12'') = 2" "hyphens (js ''AB-12'') = 1"
    by (simp_all add: eval_defs)
  from hyphens_count_towards_length_only [of "js ''AB-12''" 30]
  have "length (cleanedText (js ''AB-12'')) =
          letters (cleanedText (js ''AB-12'')) + digits (cleanedText (js ''AB-12'')) +
          hyphens (cleanedText (js ''AB-12''))"
    and "\<forall>c \<ge> 30. validatePlate (js ''AB-12'') c = Accepted (js ''AB-12'')"
    by blast+
  with h c n show ?thesis by simp
qed

section \<open>Capture and recognition\<close>

text \<open>
  Claim C8.  If the canvas ref or the video ref is \<open>null\<close> when \<open>captureImage\<close> is
  called, the call does nothing: the page, its refs and the list of engine invocations are
  as before.
\<close>

theorem captureImage_noop_without_refs:
  "canvasRef p = None \<or> videoRef p = None \<Longrightarrow> captureImage e p = p"
  by (auto simp: captureImage_def split: option.splits)

theorem captureImage_noop_without_refs_witness:
  "(canvasRef demo_page = None \<or> videoRef demo_page = None) \<and> captureImage demo_env demo_page = demo_page \<and>
   engineCalls (captureImage demo_env demo_page) = []"
proof -
  have h: "canvasRef demo_page = None \<or> videoRef demo_page = None" by (simp add: demo_page_def)
  have "engineCalls demo_page = []" by (simp add: demo_page_def)
  with h captureImage_noop_without_refs [OF h, of demo_env] show ?thesis by simp
qed

text \<open>
  Claim C10.  After every completed run of \<open>recognizeText\<close> exactly one of the plate
  text and the error message is non-empty, whatever they held before: a failure of
  \<open>toDataURL\<close> or of the engine and every rejection leave a non-empty error and an empty
  plate text; acceptance leaves the cleaned string, of length at least 3, as plate text
  and an empty error.
\<close>

theorem recognizeText_plate_xor_error:
  "(plateText (recognizeText e cv p) \<noteq> []) \<noteq> (error (recognizeText e cv p) \<noteq> []) \<and>
   (case toDataURL e cv of
      Inl err \<Rightarrow> error (recognizeText e cv p) = msgFailed \<and> plateText (recognizeText e cv p) = []
    | Inr u \<Rightarrow>
        (case recognize e u of
           Inl err \<Rightarrow>
             error (recognizeText e cv p) = msgFailed \<and> plateText (recognizeText e cv p) = []
         | Inr d \<Rightarrow>
             (case validatePlate (data_text d) (data_confidence d) of
                Rejected r \<Rightarrow>
                  error (recognizeText e cv p) \<noteq> [] \<and> plateText (recognizeText e cv p) = []
              | Accepted x \<Rightarrow>
                  plateText (recognizeText e cv p) = x \<and> x = cleanedText (data_text d) \<and>
                  3 \<le> length x \<and> error (recognizeText e cv p) = [])))"
  using messages_nonempty
  by (auto simp: recognizeText_fields split: sum.splits outcome.splits reason.splits
      dest: accepted_length)

theorem recognizeText_plate_xor_error_witness:
  "plateText demo_page \<noteq> [] \<and> error demo_page \<noteq> [] \<and>
   plateText (recognizeText demo_env demo_canvas demo_page) = js ''AB-12'' \<and> error (recognizeText demo_env demo_canvas demo_page) = []"
proof -
  have h3: "toDataURL demo_env demo_canvas = Inr (js ''data:,'')"
    and h4: "recognize demo_env (js ''data:,'') = Inr \<lparr>data_text = js ''ab-12'', data_confidence = 80\<rparr>"
    by (simp_all add: demo_env_def)
  have v: "validatePlate (js ''ab-12'') 80 = Accepted (js ''AB-12'')"
    by (simp add: eval_defs)
  have o: "plateText demo_page \<noteq> [] \<and> error demo_page \<noteq> []"
    by (simp add: demo_page_def js_def)
  from recognizeText_plate_xor_error [of demo_env demo_canvas demo_page] o show ?thesis
    by (simp add: h3 h4 v)
qed

end
